theory Spec2Isabelle
  imports Complex_Main
begin

section \<open>The assertion and assorter engine of Code/Audit.py\<close>

text \<open>
  A shallow embedding of the classes \<^verbatim>\<open>Assorter\<close>, \<^verbatim>\<open>Assertion\<close> and of the
  batch operations of \<^verbatim>\<open>Code/Audit.py\<close>.

  Conventions of the embedding.
  \<^item> Python floats are real numbers: rounding, overflow and infinities are not modelled.
    The one float the code itself turns into nan from finite data, the mean numpy takes
    of an empty selection, is kept apart by the type \<open>pyfloat\<close>. A division by zero
    raises \<^verbatim>\<open>ZeroDivisionError\<close>, as it does for Python's own floats; no theorem
    below rests on a division by zero.
  \<^item> \<^verbatim>\<open>assert\<close> statements are executed.
  \<^item> An exception is a value \<open>Inl e\<close> of a sum type; the exception classes that the
    methods can raise are the constructors of \<open>error\<close>.
  \<^item> An object that a method mutates is passed in and returned updated. Objects are
    taken to be unaliased: no two dictionary entries hold the same object.
  \<^item> A dict is an association list in insertion order.
  \<^item> The parameter list of \<^verbatim>\<open>Contest.__init__\<close> lacks the comma after
    \<^verbatim>\<open>g: float=0.1\<close>; the embedding reads the list with the comma in place.
\<close>

datatype error =
  ValueError | TypeError | AssertionError | AttributeError | NameError
  | ZeroDivisionError | NotImplementedError | IndexError | KeyError

datatype pyfloat = NaN | Finite real

subsection \<open>Ballot records\<close>

text \<open>
  Modelled from the spec: the class \<^verbatim>\<open>CVR\<close> is imported from \<^verbatim>\<open>CVR.py\<close>, which
  is not among the sources. The spec names its capabilities: a \<^verbatim>\<open>phantom\<close> flag and
  the contest membership test \<^verbatim>\<open>has_contest(contest_id)\<close>. A record holds its votes
  as a dict from contest identifiers to a dict from candidates to votes.
\<close>

record cvr =
  phantom :: bool
  votes :: "(string \<times> (string \<times> int) list) list"

text \<open>
  Modelled from the spec: \<^verbatim>\<open>has_contest(contest_id) \<rightarrow> bool\<close>, the contest
  membership test of the ballot record.
\<close>

definition has_contest :: "cvr \<Rightarrow> string \<Rightarrow> bool" where
  "has_contest c contest_id = (map_of (votes c) contest_id \<noteq> None)"

subsection \<open>Class Audit: the string tags\<close>

definition PLURALITY :: string where "PLURALITY = ''PLURALITY''"
definition SUPERMAJORITY :: string where "SUPERMAJORITY = ''SUPERMAJORITY''"
definition IRV :: string where "IRV = ''IRV''"
definition POLLING :: string where "POLLING = ''POLLING''"
definition BALLOT_COMPARISON :: string where "BALLOT_COMPARISON = ''BALLOT_COMPARISON''"

subsection \<open>Class Assorter\<close>

text \<open>
  An argument that the constructor tests with \<^verbatim>\<open>callable\<close>: \<^verbatim>\<open>None\<close>, some other
  value that is not callable, or a function on ballot records.
\<close>

datatype 'a pyarg = PyNone | NotCallable | Callable 'a

record assorter =
  contest_id :: string
  winner :: "(cvr \<Rightarrow> real) pyarg"
  loser :: "(cvr \<Rightarrow> real) pyarg"
  upper_bound :: real
  assort :: "cvr \<Rightarrow> real"

text \<open>
  \<^verbatim>\<open>Assorter.__init__\<close> (lines 764-795). The three \<^verbatim>\<open>assert\<close> statements are
  the failures; \<^verbatim>\<open>upper_bound\<close> is stored as given.
\<close>

definition Assorter_init ::
  "string \<Rightarrow> (cvr \<Rightarrow> real) pyarg \<Rightarrow> (cvr \<Rightarrow> real) pyarg \<Rightarrow> (cvr \<Rightarrow> real) pyarg \<Rightarrow> real
    \<Rightarrow> error + assorter" where
  "Assorter_init cid assort_arg winner_arg loser_arg ub =
    (case assort_arg of
       Callable f \<Rightarrow>
         Inr \<lparr>contest_id = cid, winner = winner_arg, loser = loser_arg,
              upper_bound = ub, assort = f\<rparr>
     | NotCallable \<Rightarrow> Inl AssertionError
     | PyNone \<Rightarrow>
         (case winner_arg of
            Callable w \<Rightarrow>
              (case loser_arg of
                 Callable l \<Rightarrow>
                   Inr \<lparr>contest_id = cid, winner = winner_arg, loser = loser_arg,
                        upper_bound = ub, assort = (\<lambda>c. (w c - l c + 1) / 2)\<rparr>
               | _ \<Rightarrow> Inl AssertionError)
          | _ \<Rightarrow> Inl AssertionError))"

subsection \<open>The pluggable test\<close>

text \<open>
  The class \<^verbatim>\<open>NonnegMean\<close> is imported from \<^verbatim>\<open>NonnegMean.py\<close>, which is not among
  the sources; its two methods are parameters of the embedding. \<^verbatim>\<open>test(x)\<close> returns
  the p-value and the p-history of the observations \<open>x\<close>; \<^verbatim>\<open>sample_size\<close> takes the
  data, \<^verbatim>\<open>alpha\<close>, \<^verbatim>\<open>reps\<close>, \<^verbatim>\<open>prefix\<close>, \<^verbatim>\<open>quantile\<close> and \<^verbatim>\<open>seed\<close>.
\<close>

record nonneg_mean =
  test_method :: "pyfloat list \<Rightarrow> real \<times> real list"
  sample_size_method :: "pyfloat list \<Rightarrow> real \<Rightarrow> int option \<Rightarrow> bool \<Rightarrow> real \<Rightarrow> int \<Rightarrow> int"

subsection \<open>Class Contest: the configuration\<close>

text \<open>
  The fields of a \<^verbatim>\<open>Contest\<close> that the methods below read. The field \<^verbatim>\<open>id\<close> is
  \<open>ident\<close> here. \<^verbatim>\<open>assertion_json\<close> is no attribute of the class: the constructor and
  \<^verbatim>\<open>ATTRIBUTES\<close> give \<^verbatim>\<open>assertion_file\<close> only, so it is \<open>None\<close> unless a caller
  has attached one to the object.
\<close>

record json_assertion =
  assertion_type :: string
  json_winner :: string
  json_loser :: string
  already_eliminated :: "string list"

record contest_info =
  ident :: string
  risk_limit :: real
  cards :: int
  choice_function :: string
  share_to_win :: "real option"
  candidates :: "string list option"
  reported_winners :: "string list option"
  audit_type :: string
  use_style :: bool
  assertion_json :: "json_assertion list option"

subsection \<open>Class Assertion\<close>

text \<open>
  The attributes set by \<^verbatim>\<open>Assertion.__init__\<close>. The assertion holds its contest's
  configuration; none of the methods below changes a configuration field.
\<close>

record assertion =
  contest :: contest_info
  assorter :: assorter
  margin :: "pyfloat option"
  test :: nonneg_mean
  p_value :: real
  p_history :: "real list"
  proved :: bool
  sample_size :: "int option"

text \<open>\<^verbatim>\<open>Assertion.assort\<close> (lines 97-98), named apart from the assorter's field.\<close>

definition Assertion_assort :: "assertion \<Rightarrow> cvr \<Rightarrow> real" where
  "Assertion_assort self c = assort (assorter self) c"

text \<open>
  \<^verbatim>\<open>Assertion.overstatement\<close> (lines 232-275). The two branches of
  \<^verbatim>\<open>if not use_style ... elif use_style\<close> cover a Boolean flag.
\<close>

definition overstatement :: "assertion \<Rightarrow> cvr \<Rightarrow> cvr \<Rightarrow> bool \<Rightarrow> error + real" where
  "overstatement self mvr cvr' use_style' =
    (if \<not> use_style' then
       Inr (assort (assorter self) cvr'
            - (if \<not> phantom mvr then assort (assorter self) mvr else 0))
     else
       if has_contest cvr' (ident (contest self)) then
         (let cvr_assort = (if phantom cvr' then 1 / 2 else assort (assorter self) cvr');
              mvr_assort = (if phantom mvr \<or> \<not> has_contest mvr (ident (contest self))
                            then 0 else assort (assorter self) mvr)
          in Inr (cvr_assort - mvr_assort))
       else Inl ValueError)"

text \<open>
  The two sides of an overstatement in the words of the specification, to compare
  \<open>overstatement\<close> with.
\<close>

definition cvr_side :: "assertion \<Rightarrow> cvr \<Rightarrow> real" where
  "cvr_side self c = (if phantom c then 1 / 2 else Assertion_assort self c)"

definition mvr_side :: "assertion \<Rightarrow> cvr \<Rightarrow> real" where
  "mvr_side self m =
    (if phantom m then 0
     else if has_contest m (ident (contest self)) then Assertion_assort self m
     else 0)"

text \<open>
  The quotient \<^verbatim>\<open>(1 - x/u)/(2 - margin/u)\<close> of lines 303 and 354, evaluated as
  Python does: the division by \<open>u\<close> comes first, then the margin is read (\<^verbatim>\<open>None\<close>
  cannot be divided), then the outer division; nan is passed on.
\<close>

definition overstatement_quotient :: "real \<Rightarrow> real \<Rightarrow> pyfloat option \<Rightarrow> error + pyfloat" where
  "overstatement_quotient x u m =
    (if u = 0 then Inl ZeroDivisionError
     else case m of
       None \<Rightarrow> Inl TypeError
     | Some NaN \<Rightarrow> Inr NaN
     | Some (Finite v) \<Rightarrow>
         if 2 - v / u = 0 then Inl ZeroDivisionError
         else Inr (Finite ((1 - x / u) / (2 - v / u))))"

text \<open>\<^verbatim>\<open>Assertion.overstatement_assorter\<close> (lines 277-303).\<close>

definition overstatement_assorter :: "assertion \<Rightarrow> cvr \<Rightarrow> cvr \<Rightarrow> bool \<Rightarrow> error + pyfloat" where
  "overstatement_assorter self mvr cvr' use_style' =
    (case overstatement self mvr cvr' use_style' of
       Inl e \<Rightarrow> Inl e
     | Inr ov \<Rightarrow> overstatement_quotient ov (upper_bound (assorter self)) (margin self))"

text \<open>
  \<^verbatim>\<open>numpy.mean\<close> of a list: nan for the empty list (numpy warns and returns), the
  arithmetic mean otherwise.
\<close>

definition np_mean :: "real list \<Rightarrow> pyfloat" where
  "np_mean xs = (if xs = [] then NaN else Finite (sum_list xs / real (length xs)))"

text \<open>\<^verbatim>\<open>Assertion.assorter_mean\<close> (lines 103-125).\<close>

definition assorter_mean :: "assertion \<Rightarrow> cvr list \<Rightarrow> bool \<Rightarrow> pyfloat" where
  "assorter_mean self cvr_list use_style' =
    (let filtr = (if use_style' then (\<lambda>c. has_contest c (ident (contest self)))
                  else (\<lambda>c. True))
     in np_mean (map (assort (assorter self)) (filter filtr cvr_list)))"

text \<open>
  \<^verbatim>\<open>Assertion.find_margin\<close> (lines 305-328). The parameter \<^verbatim>\<open>cvr_list\<close> defaults
  to \<^verbatim>\<open>None\<close>, over which \<^verbatim>\<open>assorter_mean\<close> cannot iterate. Below 1/2 the
  argument of \<^verbatim>\<open>warnings.warn\<close> is evaluated first: its f-string reads the name
  \<^verbatim>\<open>a\<close>, which is bound neither in the method nor in the module, so the method
  leaves with \<^verbatim>\<open>NameError\<close> before it warns or stores. nan is not below 1/2. The
  method has no \<^verbatim>\<open>return\<close>: its value is \<^verbatim>\<open>None\<close>, and the result here is the
  updated assertion.
\<close>

definition find_margin :: "assertion \<Rightarrow> cvr list option \<Rightarrow> bool \<Rightarrow> error + assertion" where
  "find_margin self cvr_list use_style' =
    (case cvr_list of
       None \<Rightarrow> Inl TypeError
     | Some cvrs \<Rightarrow>
         (case assorter_mean self cvrs use_style' of
            NaN \<Rightarrow> Inr (self\<lparr>margin := Some NaN\<rparr>)
          | Finite amean \<Rightarrow>
              if amean < 1 / 2 then Inl NameError
              else Inr (self\<lparr>margin := Some (Finite (2 * amean - 1))\<rparr>)))"

text \<open>
  \<^verbatim>\<open>Assertion.make_overstatement\<close> (lines 331-354). \<^verbatim>\<open>not self.margin\<close> holds
  for \<^verbatim>\<open>None\<close> and for zero; the call it guards reads the name \<^verbatim>\<open>cvrs\<close>, which
  is not bound (the parameter is \<^verbatim>\<open>cvr_list\<close>).
\<close>

definition make_overstatement :: "assertion \<Rightarrow> real \<Rightarrow> error + pyfloat" where
  "make_overstatement self overs =
    (if margin self = None \<or> margin self = Some (Finite 0) then Inl NameError
     else overstatement_quotient overs (upper_bound (assorter self)) (margin self))"

text \<open>
  \<^verbatim>\<open>Assertion.sample_size\<close> (lines 357-430), for \<^verbatim>\<open>data\<close> a list or \<^verbatim>\<open>None\<close>.
  The comparison of the assertion with a margin \<^verbatim>\<open>None\<close> is a \<^verbatim>\<open>TypeError\<close>.
  An \<^verbatim>\<open>Assertion\<close> has no attribute \<^verbatim>\<open>u\<close> and no attribute \<^verbatim>\<open>N\<close> (its bound is
  \<^verbatim>\<open>self.assorter.upper_bound\<close>, the population size is the contest's
  \<^verbatim>\<open>cards\<close>), and the name \<^verbatim>\<open>sam_size\<close> of the last two lines is not bound: the
  estimate is assigned to \<^verbatim>\<open>sample_size\<close>. So line 420 fails for a polling audit,
  line 424 for any other, and line 429 after the estimator has run on given data.
\<close>

definition Assertion_sample_size ::
  "assertion \<Rightarrow> pyfloat list option \<Rightarrow> bool \<Rightarrow> real option \<Rightarrow> int option \<Rightarrow> real \<Rightarrow> int
    \<Rightarrow> error + (assertion \<times> int)" where
  "Assertion_sample_size self data prefix rate reps quantile seed =
    (case margin self of
       None \<Rightarrow> Inl TypeError
     | Some NaN \<Rightarrow> Inl AssertionError
     | Some (Finite m) \<Rightarrow>
         if \<not> m > 0 then Inl AssertionError
         else if data \<noteq> None \<and> data \<noteq> Some [] then
           (let estimate = sample_size_method (test self) (the data)
                             (risk_limit (contest self)) reps prefix quantile seed
            in Inl NameError)
         else if audit_type (contest self) = POLLING then Inl AttributeError
         else
           (case make_overstatement self 0 of
              Inl e \<Rightarrow> Inl e
            | Inr big \<Rightarrow>
                (case make_overstatement self 1 of
                   Inl e \<Rightarrow> Inl e
                 | Inr small \<Rightarrow>
                     (let small_rate =
                            (if audit_type (contest self) = BALLOT_COMPARISON then rate
                             else if rate \<noteq> None then rate else Some ((1 - m) / 2))
                      in Inl AttributeError))))"

subsection \<open>Calls\<close>

text \<open>
  How Python binds the arguments of a call to the parameters of a function, as far as
  the binding can fail with \<^verbatim>\<open>TypeError\<close>: more positional arguments than
  parameters, a keyword that names no parameter or one that a positional argument has
  filled, or a parameter without default that is left unfilled. \<open>params\<close> are the
  parameter names in order, \<open>required\<close> those without a default, \<open>npos\<close> the number
  of positional arguments (the object or class of a method call counts as the first) and
  \<open>kws\<close> the keywords of the call.
\<close>

definition bind_arguments :: "string list \<Rightarrow> string list \<Rightarrow> nat \<Rightarrow> string list \<Rightarrow> error option" where
  "bind_arguments params required npos kws =
    (if length params < npos then Some TypeError
     else if list_ex (\<lambda>k. k \<in> set (take npos params) \<or> k \<notin> set params) kws
       then Some TypeError
     else if list_ex (\<lambda>r. r \<notin> set (take npos params) \<and> r \<notin> set kws) required
       then Some TypeError
     else None)"

subsection \<open>Class Contest with its assertions\<close>

text \<open>
  A \<^verbatim>\<open>Contest\<close> with the attributes the batch operations write: \<^verbatim>\<open>assertions\<close>
  (\<^verbatim>\<open>None\<close> until set), \<^verbatim>\<open>margins\<close>, \<^verbatim>\<open>p_values\<close>, the dict \<^verbatim>\<open>proved\<close>
  (\<open>proved_flags\<close> here, apart from the assertion's flag) and \<^verbatim>\<open>max_p\<close>.
\<close>

record contest = contest_info +
  assertions :: "(string \<times> assertion) list option"
  margins :: "(string \<times> pyfloat option) list"
  p_values :: "(string \<times> real) list"
  proved_flags :: "(string \<times> int) list"
  max_p :: "real option"

definition assertions_of :: "contest \<Rightarrow> (string \<times> assertion) list" where
  "assertions_of cont = (case assertions cont of None \<Rightarrow> [] | Some asrts \<Rightarrow> asrts)"

subsection \<open>P-value propagation\<close>

text \<open>
  The call of line 710, \<^verbatim>\<open>asrt.overstatement_assorter(mvr_sample[i], cvr_sample[i],
  margin, use_style=use_style)\<close>, against the signature of line 277.
\<close>

definition overstatement_assorter_params :: "string list" where
  "overstatement_assorter_params = [''self'', ''mvr'', ''cvr'', ''use_style'']"

definition overstatement_assorter_call ::
  "assertion \<Rightarrow> cvr \<Rightarrow> cvr \<Rightarrow> bool \<Rightarrow> error + pyfloat" where
  "overstatement_assorter_call asrt m cv us =
    (case bind_arguments overstatement_assorter_params [''self''] 4 [''use_style''] of
       Some e \<Rightarrow> Inl e
     | None \<Rightarrow> overstatement_assorter asrt m cv us)"

text \<open>
  The list comprehension of lines 710-712 over the pairs of the two samples, which have
  the same length when it runs, and over an absent CVR sample.
\<close>

fun comparison_pairs :: "assertion \<Rightarrow> string \<Rightarrow> bool \<Rightarrow> (cvr \<times> cvr) list \<Rightarrow> error + pyfloat list" where
  "comparison_pairs asrt c us [] = Inr []"
| "comparison_pairs asrt c us ((m, cv) # rest) =
    (if \<not> us \<or> has_contest cv c then
       (case overstatement_assorter_call asrt m cv us of
          Inl e \<Rightarrow> Inl e
        | Inr v \<Rightarrow>
            (case comparison_pairs asrt c us rest of
               Inl e \<Rightarrow> Inl e
             | Inr vs \<Rightarrow> Inr (v # vs)))
     else comparison_pairs asrt c us rest)"

definition comparison_data ::
  "assertion \<Rightarrow> string \<Rightarrow> bool \<Rightarrow> cvr list \<Rightarrow> cvr list option \<Rightarrow> error + pyfloat list" where
  "comparison_data asrt c us mvr_sample cvr_sample =
    (case cvr_sample of
       None \<Rightarrow> if mvr_sample = [] then Inr [] else Inl TypeError
     | Some cvrs \<Rightarrow> comparison_pairs asrt c us (zip mvr_sample cvrs))"

text \<open>
  Line 713, \<^verbatim>\<open>u = 2/(2-margin/upper_bound)\<close>, for Python floats: its value is not
  used afterwards, its failures are.
\<close>

definition comparison_bound :: "assertion \<Rightarrow> error + pyfloat" where
  "comparison_bound asrt =
    (case margin asrt of
       None \<Rightarrow> Inl TypeError
     | Some mg \<Rightarrow>
         if upper_bound (assorter asrt) = 0 then Inl ZeroDivisionError
         else (case mg of
                 NaN \<Rightarrow> Inr NaN
               | Finite m \<Rightarrow>
                   if 2 - m / upper_bound (assorter asrt) = 0 then Inl ZeroDivisionError
                   else Inr (Finite (2 / (2 - m / upper_bound (assorter asrt))))))"

text \<open>Lines 709-718: the observations \<open>d\<close> for one assertion of the contest \<open>c\<close>.\<close>

definition p_value_data ::
  "'a contest_info_scheme \<Rightarrow> string \<Rightarrow> assertion \<Rightarrow> cvr list \<Rightarrow> cvr list option
    \<Rightarrow> error + pyfloat list" where
  "p_value_data cont c asrt mvr_sample cvr_sample =
    (if audit_type cont = BALLOT_COMPARISON then
       (case comparison_data asrt c (use_style cont) mvr_sample cvr_sample of
          Inl e \<Rightarrow> Inl e
        | Inr d \<Rightarrow> (case comparison_bound asrt of Inl e \<Rightarrow> Inl e | Inr u \<Rightarrow> Inr d))
     else if audit_type cont = POLLING then
       Inr (map (\<lambda>m. Finite (Assertion_assort asrt m)) mvr_sample)
     else Inl NotImplementedError)"

text \<open>Lines 719-723: the test's verdict on \<open>d\<close>, stored in the assertion.\<close>

definition store_p_value :: "'a contest_info_scheme \<Rightarrow> assertion \<Rightarrow> pyfloat list \<Rightarrow> assertion" where
  "store_p_value cont asrt d =
    (case test_method (test asrt) d of
       (p, h) \<Rightarrow> asrt\<lparr>p_value := p, p_history := h,
                      proved := (p \<le> risk_limit cont \<or> proved asrt)\<rparr>)"

text \<open>
  The loop of lines 705-726 over the assertions of one contest, from the running
  maximum \<open>contest_max_p\<close>. It returns the assertions, the entries added to
  \<^verbatim>\<open>p_values\<close> and to \<^verbatim>\<open>proved\<close>, and the maximum or the exception that ended it;
  what was stored before an exception stays stored.
\<close>

fun assertions_p_values ::
  "'a contest_info_scheme \<Rightarrow> string \<Rightarrow> cvr list \<Rightarrow> cvr list option
    \<Rightarrow> (string \<times> assertion) list \<Rightarrow> real
    \<Rightarrow> (string \<times> assertion) list \<times> (string \<times> real) list \<times> (string \<times> int) list
        \<times> (error + real)" where
  "assertions_p_values cont c mvrs cvrs [] contest_max_p = ([], [], [], Inr contest_max_p)"
| "assertions_p_values cont c mvrs cvrs ((a, asrt) # rest) contest_max_p =
    (case p_value_data cont c asrt mvrs cvrs of
       Inl e \<Rightarrow> ((a, asrt) # rest, [], [], Inl e)
     | Inr d \<Rightarrow>
         (case assertions_p_values cont c mvrs cvrs rest
                 (max contest_max_p (p_value (store_p_value cont asrt d))) of
            (rest', pv, pf, r) \<Rightarrow>
              ((a, store_p_value cont asrt d) # rest',
               (a, p_value (store_p_value cont asrt d)) # pv,
               (a, if proved (store_p_value cont asrt d) then 1 else 0) # pf,
               r)))"

text \<open>Lines 701-727 for one contest \<^verbatim>\<open>contests[c]\<close>.\<close>

definition contest_p_values ::
  "string \<Rightarrow> contest \<Rightarrow> cvr list \<Rightarrow> cvr list option \<Rightarrow> contest \<times> (error + real)" where
  "contest_p_values c cont mvrs cvrs =
    (case assertions cont of
       None \<Rightarrow> (cont\<lparr>p_values := [], proved_flags := []\<rparr>, Inl TypeError)
     | Some asrts \<Rightarrow>
         (case assertions_p_values cont c mvrs cvrs asrts 0 of
            (asrts', pv, pf, r) \<Rightarrow>
              (case r of
                 Inl e \<Rightarrow>
                   (cont\<lparr>assertions := Some asrts', p_values := pv, proved_flags := pf\<rparr>,
                    Inl e)
               | Inr contest_max_p \<Rightarrow>
                   (cont\<lparr>assertions := Some asrts', p_values := pv, proved_flags := pf,
                         max_p := Some contest_max_p\<rparr>,
                    Inr contest_max_p))))"

text \<open>The loop of lines 700-728 over the contests, from the running maximum \<open>p_max\<close>.\<close>

fun contests_p_values ::
  "cvr list \<Rightarrow> cvr list option \<Rightarrow> (string \<times> contest) list \<Rightarrow> real
    \<Rightarrow> (string \<times> contest) list \<times> (error + real)" where
  "contests_p_values mvrs cvrs [] p_max = ([], Inr p_max)"
| "contests_p_values mvrs cvrs ((c, cont) # rest) p_max =
    (case contest_p_values c cont mvrs cvrs of
       (cont', Inl e) \<Rightarrow> ((c, cont') # rest, Inl e)
     | (cont', Inr contest_max_p) \<Rightarrow>
         (case contests_p_values mvrs cvrs rest (max p_max contest_max_p) of
            (rest', r) \<Rightarrow> ((c, cont') # rest', r)))"

text \<open>
  \<^verbatim>\<open>Assertion.set_all_p_values\<close> (lines 666-729): the contests as the call leaves
  them, and the value it returns or the exception it raises.
\<close>

definition set_all_p_values ::
  "(string \<times> contest) list \<Rightarrow> cvr list \<Rightarrow> cvr list option
    \<Rightarrow> (string \<times> contest) list \<times> (error + real)" where
  "set_all_p_values contests mvr_sample cvr_sample =
    (case cvr_sample of
       None \<Rightarrow> contests_p_values mvr_sample cvr_sample contests 0
     | Some cvrs \<Rightarrow>
         if length mvr_sample \<noteq> length cvrs then (contests, Inl AssertionError)
         else contests_p_values mvr_sample cvr_sample contests 0)"

subsection \<open>Margin propagation\<close>

text \<open>
  The body of the inner loop of \<^verbatim>\<open>set_all_margins\<close> (lines 659-662) for the first
  assertion it meets. Line 660 calls \<^verbatim>\<open>find_margin(use_style=use_style)\<close> without
  the CVR list, and would store the call's value, which is \<^verbatim>\<open>None\<close>, as the margin
  and compare it with the float \<^verbatim>\<open>min_margin\<close> in line 662, a \<^verbatim>\<open>TypeError\<close>: no
  path leads to a second assertion.
\<close>

fun assertions_margins ::
  "bool \<Rightarrow> (string \<times> assertion) list
    \<Rightarrow> (string \<times> assertion) list \<times> (string \<times> pyfloat option) list \<times> error option" where
  "assertions_margins us [] = ([], [], None)"
| "assertions_margins us ((a, asrt) # rest) =
    (case find_margin asrt None us of
       Inl e \<Rightarrow> ((a, asrt) # rest, [], Some e)
     | Inr asrt' \<Rightarrow> ((a, asrt'\<lparr>margin := None\<rparr>) # rest, [(a, None)], Some TypeError))"

text \<open>The loop of lines 657-662 over the contests.\<close>

fun contests_margins ::
  "bool \<Rightarrow> (string \<times> contest) list \<Rightarrow> (string \<times> contest) list \<times> error option" where
  "contests_margins us [] = ([], None)"
| "contests_margins us ((c, cont) # rest) =
    (case assertions cont of
       None \<Rightarrow> ((c, cont\<lparr>margins := []\<rparr>) # rest, Some TypeError)
     | Some asrts \<Rightarrow>
         (case assertions_margins us asrts of
            (asrts', ms, Some e) \<Rightarrow>
              ((c, cont\<lparr>assertions := Some asrts', margins := ms\<rparr>) # rest, Some e)
          | (asrts', ms, None) \<Rightarrow>
              (case contests_margins us rest of
                 (rest', r) \<Rightarrow>
                   ((c, cont\<lparr>assertions := Some asrts', margins := ms\<rparr>) # rest', r))))"

text \<open>
  \<^verbatim>\<open>Assertion.set_all_margins\<close> (lines 633-663): the contests as the call leaves
  them, and the exception it raises or the value it returns. The body never reads its
  parameter \<^verbatim>\<open>cvr_list\<close>. The only value it can return is the \<^verbatim>\<open>np.infty\<close> that
  \<^verbatim>\<open>min_margin\<close> starts from, which is \<open>None\<close> here.
\<close>

definition set_all_margins ::
  "(string \<times> contest) list \<Rightarrow> cvr list \<Rightarrow> bool
    \<Rightarrow> (string \<times> contest) list \<times> (error + real option)" where
  "set_all_margins contests cvr_list use_style' =
    (case contests_margins use_style' contests of
       (contests', Some e) \<Rightarrow> (contests', Inl e)
     | (contests', None) \<Rightarrow> (contests', Inr None))"

subsection \<open>Construction of the assertions\<close>

text \<open>
  The signatures of the three factory methods (lines 433-434, 469-470 and 525-528): the
  names of the parameters, and of those without a default.
\<close>

definition make_plurality_assertions_params :: "string list" where
  "make_plurality_assertions_params = [''cls'', ''contest'', ''winners'', ''losers'']"

definition make_supermajority_assertion_params :: "string list" where
  "make_supermajority_assertion_params =
     [''cls'', ''contest'', ''winner'', ''losers'', ''test'', ''estim'']"

definition make_supermajority_assertion_required :: "string list" where
  "make_supermajority_assertion_required = [''cls'', ''contest'', ''winner'', ''losers'']"

definition make_assertions_from_json_params :: "string list" where
  "make_assertions_from_json_params =
     [''cls'', ''contest'', ''candidates'', ''json_assertions'', ''test'', ''estim'']"

text \<open>
  The bodies of the factory methods are parameters of \<open>make_all_assertions\<close>: each
  takes the arguments that the call passes (the key \<open>c\<close> of the dict for
  \<^verbatim>\<open>contest\<close>) and returns a dict of assertions or raises.
\<close>

record factories =
  make_plurality_assertions ::
    "string \<Rightarrow> string list option \<Rightarrow> string list \<Rightarrow> error + (string \<times> assertion) list"
  make_supermajority_assertion ::
    "string \<Rightarrow> string \<Rightarrow> string list \<Rightarrow> real option \<Rightarrow> error + (string \<times> assertion) list"
  make_assertions_from_json ::
    "string \<Rightarrow> string list option \<Rightarrow> json_assertion list
      \<Rightarrow> error + (string \<times> assertion) list"

text \<open>Line 613: the candidates that are not reported winners.\<close>

definition losers_of :: "contest \<Rightarrow> error + string list" where
  "losers_of cont =
    (case candidates cont of
       None \<Rightarrow> Inl TypeError
     | Some cands \<Rightarrow>
         (case reported_winners cont of
            None \<Rightarrow> if cands = [] then Inr [] else Inl TypeError
          | Some winrs \<Rightarrow> Inr (filter (\<lambda>cand. cand \<notin> set winrs) cands)))"

text \<open>
  Lines 611-630 for one contest \<^verbatim>\<open>contests[c]\<close>: the assertions to store in it, or
  the exception. Each call is bound to its method's signature before the body runs.
\<close>

definition contest_assertions ::
  "factories \<Rightarrow> string \<Rightarrow> contest \<Rightarrow> error + (string \<times> assertion) list" where
  "contest_assertions fs c cont =
    (case losers_of cont of
       Inl e \<Rightarrow> Inl e
     | Inr losrs \<Rightarrow>
         if choice_function cont = PLURALITY then
           (case bind_arguments make_plurality_assertions_params [''cls''] 1
                   [''contest'', ''winners'', ''losers'', ''test'', ''estim''] of
              Some e \<Rightarrow> Inl e
            | None \<Rightarrow> make_plurality_assertions fs c (reported_winners cont) losrs)
         else if choice_function cont = SUPERMAJORITY then
           (case reported_winners cont of
              None \<Rightarrow> Inl TypeError
            | Some [] \<Rightarrow> Inl IndexError
            | Some (winr # _) \<Rightarrow>
                (case bind_arguments make_supermajority_assertion_params
                        make_supermajority_assertion_required 1
                        [''contest'', ''winners'', ''losers'', ''share_to_win'', ''test'',
                         ''estim''] of
                   Some e \<Rightarrow> Inl e
                 | None \<Rightarrow> make_supermajority_assertion fs c winr losrs (share_to_win cont)))
         else if choice_function cont = IRV then
           (case assertion_json cont of
              None \<Rightarrow> Inl AttributeError
            | Some js \<Rightarrow>
                (case bind_arguments make_assertions_from_json_params [''cls''] 1
                        [''contest'', ''candidates'', ''json_assertions'', ''test'', ''estim''] of
                   Some e \<Rightarrow> Inl e
                 | None \<Rightarrow> make_assertions_from_json fs c (candidates cont) js))
         else Inl NotImplementedError)"

text \<open>The loop of lines 610-630 over the contests.\<close>

fun contests_assertions ::
  "factories \<Rightarrow> (string \<times> contest) list \<Rightarrow> (string \<times> contest) list \<times> error option" where
  "contests_assertions fs [] = ([], None)"
| "contests_assertions fs ((c, cont) # rest) =
    (case contest_assertions fs c cont of
       Inl e \<Rightarrow> ((c, cont) # rest, Some e)
     | Inr asrts \<Rightarrow>
         (case contests_assertions fs rest of
            (rest', r) \<Rightarrow> ((c, cont\<lparr>assertions := Some asrts\<rparr>) # rest', r)))"

text \<open>\<^verbatim>\<open>Assertion.make_all_assertions\<close> (lines 590-631).\<close>

definition make_all_assertions ::
  "factories \<Rightarrow> (string \<times> contest) list \<Rightarrow> (string \<times> contest) list \<times> (error + bool)" where
  "make_all_assertions fs contests =
    (case contests_assertions fs contests of
       (contests', Some e) \<Rightarrow> (contests', Inl e)
     | (contests', None) \<Rightarrow> (contests', Inr True))"

subsection \<open>What the claims say about p-value propagation\<close>

text \<open>
  Predicates in the words of the claims, relating an entry of a dict before a call to
  the entry after it. \<open>proved_kept\<close>: the flag \<^verbatim>\<open>proved\<close> is not reset.
  \<open>proved_set\<close>: the p-value is the test's on the observations of lines 709-718, and
  \<^verbatim>\<open>proved\<close> holds exactly when that p-value is at most the risk limit or the flag
  held before.
\<close>

definition proved_kept :: "string \<times> assertion \<Rightarrow> string \<times> assertion \<Rightarrow> bool" where
  "proved_kept old new = (fst new = fst old \<and> (proved (snd old) \<longrightarrow> proved (snd new)))"

definition proved_set ::
  "contest \<Rightarrow> string \<Rightarrow> cvr list \<Rightarrow> cvr list option \<Rightarrow> string \<times> assertion \<Rightarrow> string \<times> assertion \<Rightarrow> bool" where
  "proved_set cont c mvrs cvrs old new =
    (\<exists>d. p_value_data cont c (snd old) mvrs cvrs = Inr d
        \<and> p_value (snd new) = fst (test_method (test (snd old)) d)
        \<and> proved (snd new) = (p_value (snd new) \<le> risk_limit cont \<or> proved (snd old)))"

definition contest_proved_kept :: "string \<times> contest \<Rightarrow> string \<times> contest \<Rightarrow> bool" where
  "contest_proved_kept old new =
    (fst new = fst old
     \<and> list_all2 proved_kept (assertions_of (snd old)) (assertions_of (snd new)))"

definition contest_proved_set ::
  "cvr list \<Rightarrow> cvr list option \<Rightarrow> string \<times> contest \<Rightarrow> string \<times> contest \<Rightarrow> bool" where
  "contest_proved_set mvrs cvrs old new =
    list_all2 (proved_set (snd old) (fst old) mvrs cvrs)
      (assertions_of (snd old)) (assertions_of (snd new))"

text \<open>
  \<open>max_p_rolled_up\<close>: \<^verbatim>\<open>max_p\<close> is the largest of 0 and the assertions' p-values,
  said through the thresholds \<open>t\<close> it is below.
\<close>

definition max_p_rolled_up :: "string \<times> contest \<Rightarrow> bool" where
  "max_p_rolled_up new =
    (\<exists>mp. max_p (snd new) = Some mp
       \<and> (\<forall>t. mp \<le> t \<longleftrightarrow>
              0 \<le> t \<and> list_all (\<lambda>ay. p_value (snd ay) \<le> t) (assertions_of (snd new))))"

definition all_proved :: "contest \<Rightarrow> bool" where
  "all_proved cont = list_all (\<lambda>ay. proved (snd ay)) (assertions_of cont)"




text \<open>
  \<open>polled\<close>: an assertion after the test has run on the assort values of all the MVRs
  of the sample.
\<close>

definition polled :: "'a contest_info_scheme \<Rightarrow> cvr list \<Rightarrow> string \<times> assertion \<Rightarrow> string \<times> assertion" where
  "polled cont mvrs ay =
    (fst ay, store_p_value cont (snd ay) (map (\<lambda>m. Finite (Assertion_assort (snd ay) m)) mvrs))"

text \<open>
  What a call that returns has given to the tests. \<open>polling_tested\<close>: the p-value and
  the p-history of an assertion are the test's on the assort values of all the MVRs of
  the sample, in order. \<open>comparison_filtered\<close>: the filter of line 712 drops every pair
  of the samples, that is, the audit uses card style and no CVR of the sample contains
  the contest. \<open>fed_to_test\<close>: the first for every assertion of a polling contest,
  whatever its \<^verbatim>\<open>use_style\<close> flag; the second for a comparison contest that has an
  assertion.
\<close>

definition polling_tested :: "cvr list \<Rightarrow> string \<times> assertion \<Rightarrow> string \<times> assertion \<Rightarrow> bool" where
  "polling_tested mvrs old new =
    (fst new = fst old
     \<and> p_value (snd new)
         = fst (test_method (test (snd old))
                  (map (\<lambda>m. Finite (Assertion_assort (snd old) m)) mvrs))
     \<and> p_history (snd new)
         = snd (test_method (test (snd old))
                  (map (\<lambda>m. Finite (Assertion_assort (snd old) m)) mvrs)))"

definition comparison_filtered :: "string \<Rightarrow> bool \<Rightarrow> cvr list \<Rightarrow> cvr list option \<Rightarrow> bool" where
  "comparison_filtered c us mvrs cvrs =
    (mvrs = []
     \<or> (us \<and> (case cvrs of None \<Rightarrow> False
                | Some cs \<Rightarrow> list_all (\<lambda>cv. \<not> has_contest cv c) cs)))"

definition fed_to_test ::
  "cvr list \<Rightarrow> cvr list option \<Rightarrow> string \<times> contest \<Rightarrow> string \<times> contest \<Rightarrow> bool" where
  "fed_to_test mvrs cvrs old new =
    (fst new = fst old
     \<and> (audit_type (snd old) = POLLING
          \<longrightarrow> list_all2 (polling_tested mvrs) (assertions_of (snd old)) (assertions_of (snd new)))
     \<and> (audit_type (snd old) = BALLOT_COMPARISON \<and> assertions_of (snd old) \<noteq> []
          \<longrightarrow> comparison_filtered (fst old) (use_style (snd old)) mvrs cvrs))"

subsection \<open>Ballots, assorters and assertions to evaluate the methods on\<close>

text \<open>
  Modelled from the spec: \<^verbatim>\<open>get_vote_for(contest_id, candidate)\<close> of the ballot
  record, with values in \<open>{0,1}\<close>; \<^verbatim>\<open>CVR.py\<close> is not among the sources. It is used
  by the example assorters only.
\<close>

definition vote_for :: "cvr \<Rightarrow> string \<Rightarrow> string \<Rightarrow> real" where
  "vote_for c contest_id' cand =
    (case map_of (votes c) contest_id' of
       None \<Rightarrow> 0
     | Some vs \<Rightarrow> (case map_of vs cand of None \<Rightarrow> 0 | Some v \<Rightarrow> if v = 0 then 0 else 1))"

definition vote_A :: cvr where
  "vote_A = \<lparr>phantom = False, votes = [(''c1'', [(''A'', 1), (''B'', 0)])]\<rparr>"

definition vote_B :: cvr where
  "vote_B = \<lparr>phantom = False, votes = [(''c1'', [(''A'', 0), (''B'', 1)])]\<rparr>"

definition phantom_card :: cvr where
  "phantom_card = \<lparr>phantom = True, votes = [(''c1'', [])]\<rparr>"

definition other_card :: cvr where
  "other_card = \<lparr>phantom = False, votes = [(''c2'', [(''X'', 1)])]\<rparr>"

definition ex_winner :: "cvr \<Rightarrow> real" where
  "ex_winner c = vote_for c ''c1'' ''A''"

definition ex_loser :: "cvr \<Rightarrow> real" where
  "ex_loser c = vote_for c ''c1'' ''B''"

text \<open>A test that reports the p-value it is built with, whatever the data.\<close>

definition const_test :: "real \<Rightarrow> nonneg_mean" where
  "const_test p = \<lparr>test_method = (\<lambda>x. (p, map (\<lambda>_. p) x)),
                   sample_size_method = (\<lambda>x alpha reps prefix quantile seed. 0)\<rparr>"

definition ex_info :: contest_info where
  "ex_info = \<lparr>ident = ''c1'', risk_limit = 1 / 20, cards = 100,
              choice_function = PLURALITY, share_to_win = None,
              candidates = Some [''A'', ''B''], reported_winners = Some [''A''],
              audit_type = POLLING, use_style = True, assertion_json = None\<rparr>"

definition ex_assorter :: assorter where
  "ex_assorter = \<lparr>contest_id = ''c1'', winner = Callable ex_winner, loser = Callable ex_loser,
                  upper_bound = 1, assort = (\<lambda>c. (ex_winner c - ex_loser c + 1) / 2)\<rparr>"

definition ex_assertion :: assertion where
  "ex_assertion = \<lparr>contest = ex_info, assorter = ex_assorter, margin = Some (Finite (1 / 5)),
                   test = const_test 1, p_value = 1, p_history = [], proved = False,
                   sample_size = None\<rparr>"

text \<open>The same winner and loser under a declared bound of 1/2.\<close>

definition half_assorter :: assorter where
  "half_assorter = ex_assorter\<lparr>upper_bound := 1 / 2\<rparr>"

text \<open>
  An assertion whose assorter is bounded by 1/4, and a supermajority assertion for a
  share of 2/3, bounded by 3/4, that scores a vote for \<open>A\<close> 3/4 and any other card 0.
\<close>

definition quarter_assertion :: assertion where
  "quarter_assertion =
     ex_assertion\<lparr>assorter := \<lparr>contest_id = ''c1'', winner = PyNone, loser = PyNone,
                                 upper_bound = 1 / 4, assort = (\<lambda>c. ex_winner c / 4)\<rparr>,
                   margin := Some (Finite (1 / 8))\<rparr>"

definition share_assertion :: assertion where
  "share_assertion =
     ex_assertion\<lparr>assorter := \<lparr>contest_id = ''c1'', winner = PyNone, loser = PyNone,
                                 upper_bound = 3 / 4,
                                 assort = (\<lambda>c. ex_winner c / (2 * (2 / 3)))\<rparr>,
                   margin := Some (Finite (1 / 4))\<rparr>"

text \<open>
  A test that reports 1/100 on exactly two observations and 1 otherwise, a polling
  contest with one assertion that uses it, and that contest after a call with a sample
  of two MVRs and after a further call with a sample of three.
\<close>

definition threshold_test :: nonneg_mean where
  "threshold_test = \<lparr>test_method = (\<lambda>x. (if length x = 2 then 1 / 100 else 1, [])),
                     sample_size_method = (\<lambda>x alpha reps prefix quantile seed. 0)\<rparr>"

definition polling_contest :: contest where
  "polling_contest =
     \<lparr>ident = ''c1'', risk_limit = 1 / 20, cards = 100,
      choice_function = PLURALITY, share_to_win = None,
      candidates = Some [''A'', ''B''], reported_winners = Some [''A''],
      audit_type = POLLING, use_style = True, assertion_json = None,
      assertions = Some [(''A v B'', ex_assertion\<lparr>test := threshold_test\<rparr>)],
      margins = [], p_values = [], proved_flags = [], max_p = None\<rparr>"

definition after_first_call :: "(string \<times> contest) list" where
  "after_first_call = fst (set_all_p_values [(''c1'', polling_contest)] [vote_A, vote_A] None)"

definition after_second_call :: "(string \<times> contest) list" where
  "after_second_call = fst (set_all_p_values after_first_call [vote_A, vote_A, vote_B] None)"

text \<open>
  A contest as configured, before any assertion is made for it, and a plurality contest
  with one assertion whose margin is not yet set.
\<close>

definition new_contest :: "string \<Rightarrow> contest" where
  "new_contest scf =
     \<lparr>ident = ''c1'', risk_limit = 1 / 20, cards = 100,
      choice_function = scf, share_to_win = Some (2 / 3),
      candidates = Some [''A'', ''B''], reported_winners = Some [''A''],
      audit_type = POLLING, use_style = True, assertion_json = None,
      assertions = None, margins = [], p_values = [], proved_flags = [], max_p = None\<rparr>"

definition unset_contest :: contest where
  "unset_contest =
     (new_contest PLURALITY)\<lparr>assertions := Some [(''A v B'', ex_assertion\<lparr>margin := None\<rparr>)]\<rparr>"

text \<open>
  A test whose p-history is the observations it was given and whose p-value is
  \<open>1/(1 + their sum)\<close>, and a contest of a given audit type and \<^verbatim>\<open>use_style\<close> flag
  with one assertion that uses it.
\<close>

definition finite_part :: "pyfloat \<Rightarrow> real" where
  "finite_part v = (case v of NaN \<Rightarrow> 0 | Finite r \<Rightarrow> r)"

definition recording_test :: nonneg_mean where
  "recording_test =
     \<lparr>test_method = (\<lambda>x. (1 / (1 + sum_list (map finite_part x)), map finite_part x)),
      sample_size_method = (\<lambda>x alpha reps prefix quantile seed. 0)\<rparr>"

definition recorded_contest :: "string \<Rightarrow> bool \<Rightarrow> contest" where
  "recorded_contest kind us =
     polling_contest\<lparr>audit_type := kind, use_style := us,
                      assertions := Some [(''A v B'', ex_assertion\<lparr>test := recording_test\<rparr>)]\<rparr>"

section \<open>Theorems\<close>

subsection \<open>Overstatement\<close>

text \<open>
  C1. With \<^verbatim>\<open>use_style=True\<close> the overstatement of a pair raises \<^verbatim>\<open>ValueError\<close>
  when the CVR does not contain the assertion's contest, and is otherwise the CVR side
  (1/2 for a phantom CVR, its assort value otherwise) minus the MVR side (0 for an MVR
  that is phantom or lacks the contest, its assort value otherwise). With
  \<^verbatim>\<open>use_style=False\<close> it is the CVR's assort value minus the MVR's, the latter
  replaced by 0 for a phantom MVR.
\<close>

theorem overstatement_cases:
  "overstatement self mvr c True =
     (if has_contest c (ident (contest self))
      then Inr (cvr_side self c - mvr_side self mvr) else Inl ValueError)
   \<and> overstatement self mvr c False =
       Inr (Assertion_assort self c - (if phantom mvr then 0 else Assertion_assort self mvr))"
  by (simp add: overstatement_def cvr_side_def mvr_side_def Assertion_assort_def Let_def)

theorem overstatement_cases_witness:
  "overstatement ex_assertion vote_B phantom_card True = Inr (1 / 2)
   \<and> overstatement ex_assertion vote_B other_card True = Inl ValueError
   \<and> overstatement ex_assertion other_card vote_A True = Inr 1
   \<and> overstatement ex_assertion phantom_card vote_A False = Inr 1
   \<and> overstatement ex_assertion vote_A vote_A False = Inr 0"
  using overstatement_cases [of ex_assertion vote_B phantom_card]
    overstatement_cases [of ex_assertion vote_B other_card]
    overstatement_cases [of ex_assertion other_card vote_A]
    overstatement_cases [of ex_assertion phantom_card vote_A]
    overstatement_cases [of ex_assertion vote_A vote_A]
  by (simp add: cvr_side_def mvr_side_def Assertion_assort_def has_contest_def
      ex_assertion_def ex_assorter_def ex_info_def ex_winner_def ex_loser_def vote_for_def
      vote_A_def vote_B_def phantom_card_def other_card_def)

subsection \<open>The overstatement assorter\<close>

text \<open>
  The overstatements that can occur: when the assorter keeps within \<open>[0, u]\<close> and
  \<open>u\<close> is at least the 1/2 that a phantom CVR counts for, every overstatement lies in
  \<open>[-u, u]\<close>.
\<close>

lemma overstatement_range:
  assumes "\<And>b. 0 \<le> assort (assorter self) b \<and> assort (assorter self) b \<le> upper_bound (assorter self)"
    and "1 / 2 \<le> upper_bound (assorter self)"
    and "overstatement self mvr c us = Inr ov"
  shows "- upper_bound (assorter self) \<le> ov \<and> ov \<le> upper_bound (assorter self)"
proof -
  have c: "0 \<le> assort (assorter self) c" "assort (assorter self) c \<le> upper_bound (assorter self)"
    and m: "0 \<le> assort (assorter self) mvr" "assort (assorter self) mvr \<le> upper_bound (assorter self)"
    using assms(1) by simp_all
  show ?thesis
    using assms(2,3) c m
    by (auto simp: overstatement_def Let_def split: if_splits)
qed

text \<open>
  C2 (amended). When the margin \<open>m\<close> is a number with \<open>0 < m \<le> u\<close>, for \<open>u\<close> the
  assorter's upper bound, and the overstatement of the pair is \<open>o\<close>, the overstatement
  assorter returns \<open>(1 - o/u)/(2 - m/u)\<close>; and for every overstatement \<open>o\<close> in
  \<open>[-u, u]\<close> that value lies in \<open>[0, 2/(2 - m/u)]\<close>, the bound that
  \<^verbatim>\<open>set_all_p_values\<close> computes for comparison audits.
\<close>

theorem overstatement_assorter_value_and_range:
  "overstatement self mvr c us = Inr ov \<Longrightarrow> margin self = Some (Finite m) \<Longrightarrow> 0 < m
   \<Longrightarrow> m \<le> upper_bound (assorter self)
   \<Longrightarrow> overstatement_assorter self mvr c us
         = Inr (Finite ((1 - ov / upper_bound (assorter self))
                        / (2 - m / upper_bound (assorter self))))
       \<and> (- upper_bound (assorter self) \<le> ov \<and> ov \<le> upper_bound (assorter self)
           \<longrightarrow> 0 \<le> (1 - ov / upper_bound (assorter self))
                      / (2 - m / upper_bound (assorter self))
               \<and> (1 - ov / upper_bound (assorter self))
                      / (2 - m / upper_bound (assorter self))
                   \<le> 2 / (2 - m / upper_bound (assorter self)))"
proof -
  define u where "u = upper_bound (assorter self)"
  assume ov: "overstatement self mvr c us = Inr ov"
    and mg: "margin self = Some (Finite m)"
    and m0: "0 < m" and mu: "m \<le> upper_bound (assorter self)"
  have u0: "0 < u" using m0 mu by (simp add: u_def)
  have "m / u \<le> 1" using mu u0 by (simp add: u_def)
  then have den: "1 \<le> 2 - m / u" by simp
  have val: "overstatement_assorter self mvr c us = Inr (Finite ((1 - ov / u) / (2 - m / u)))"
  proof -
    have "m / u \<noteq> 2" using den by linarith
    then show ?thesis
      using ov mg u0 by (simp add: overstatement_assorter_def overstatement_quotient_def u_def)
  qed
  have rng: "0 \<le> (1 - ov / u) / (2 - m / u) \<and> (1 - ov / u) / (2 - m / u) \<le> 2 / (2 - m / u)"
    if "- u \<le> ov" "ov \<le> u"
  proof -
    have "ov / u \<le> 1" using that u0 by simp
    moreover have "- 1 \<le> ov / u" using that u0 by (simp add: pos_le_divide_eq)
    ultimately have "0 \<le> 1 - ov / u" "1 - ov / u \<le> 2" by simp_all
    then show ?thesis using den by (simp add: divide_right_mono)
  qed
  show ?thesis using val rng unfolding u_def by blast
qed

theorem overstatement_assorter_value_and_range_witness:
  "overstatement ex_assertion vote_B vote_A True = Inr 1
   \<and> overstatement_assorter ex_assertion vote_B vote_A True = Inr (Finite 0)
   \<and> overstatement_assorter ex_assertion vote_A vote_A True = Inr (Finite (5 / 9))"
proof -
  have o1: "overstatement ex_assertion vote_B vote_A True = Inr 1"
    and o2: "overstatement ex_assertion vote_A vote_A True = Inr 0"
    by (simp_all add: overstatement_def has_contest_def ex_assertion_def ex_assorter_def
        ex_info_def ex_winner_def ex_loser_def vote_for_def vote_A_def vote_B_def)
  have mg: "margin ex_assertion = Some (Finite (1 / 5))"
    and ub: "upper_bound (assorter ex_assertion) = 1"
    by (simp_all add: ex_assertion_def ex_assorter_def)
  show ?thesis
    using overstatement_assorter_value_and_range [OF o1 mg]
      overstatement_assorter_value_and_range [OF o2 mg] o1 ub
    by simp
qed

text \<open>
  The claim as stated fails twice. An overstatement above \<open>u\<close> gives a negative value:
  for \<open>u = 1/4\<close> and margin 1/8, a phantom CVR against a phantom MVR overstates by
  \<open>1/2 = 2u\<close>, and the value is \<open>-2/3\<close>. A bound \<open>u < 1\<close> makes \<open>2u/(2 - m/u)\<close> too
  small: for \<open>u = 3/4\<close> and margin 1/4, a CVR scoring 0 against an MVR scoring 3/4
  understates by \<open>u\<close>, and the value \<open>6/5\<close> is above \<open>2u/(2 - m/u) = 9/10\<close>.
\<close>

theorem overstatement_assorter_range_counterexample:
  "upper_bound (assorter quarter_assertion) = 1 / 4
   \<and> margin quarter_assertion = Some (Finite (1 / 8))
   \<and> overstatement quarter_assertion phantom_card phantom_card True = Inr (2 * (1 / 4))
   \<and> overstatement_assorter quarter_assertion phantom_card phantom_card True
       = Inr (Finite (- 2 / 3))
   \<and> \<not> (0 :: real) \<le> - 2 / 3
   \<and> upper_bound (assorter share_assertion) = 3 / 4
   \<and> margin share_assertion = Some (Finite (1 / 4))
   \<and> overstatement share_assertion vote_A vote_B True = Inr (- (3 / 4))
   \<and> overstatement_assorter share_assertion vote_A vote_B True = Inr (Finite (6 / 5))
   \<and> \<not> (6 / 5 :: real) \<le> 2 * (3 / 4) / (2 - (1 / 4) / (3 / 4))"
  by (simp add: overstatement_assorter_def overstatement_quotient_def overstatement_def
      has_contest_def quarter_assertion_def share_assertion_def ex_assertion_def
      ex_info_def ex_winner_def vote_for_def vote_A_def vote_B_def phantom_card_def)

subsection \<open>Construction of an assorter\<close>

text \<open>
  C3 (amended). Constructed with \<^verbatim>\<open>assort=None\<close> and callable \<^verbatim>\<open>winner\<close> and
  \<^verbatim>\<open>loser\<close>, an assorter scores every ballot \<open>(winner - loser + 1)/2\<close>; where both
  return values in \<open>{0,1}\<close> the score lies in \<open>[0,1]\<close>, hence in \<open>[0, upper_bound]\<close>
  when the bound given to the constructor is at least 1 (its default). Constructed with
  \<^verbatim>\<open>assort=None\<close> and a \<^verbatim>\<open>winner\<close> or a \<^verbatim>\<open>loser\<close> that is not callable, the
  constructor fails with \<^verbatim>\<open>AssertionError\<close>.
\<close>

theorem Assorter_init_winner_loser:
  "(\<exists>A. Assorter_init cid PyNone (Callable w) (Callable l) ub = Inr A \<and> upper_bound A = ub
        \<and> (\<forall>b. assort A b = (w b - l b + 1) / 2)
        \<and> (\<forall>b. w b \<in> {0, 1} \<and> l b \<in> {0, 1}
               \<longrightarrow> 0 \<le> assort A b \<and> assort A b \<le> 1
                   \<and> (1 \<le> ub \<longrightarrow> assort A b \<le> upper_bound A)))
   \<and> ((\<forall>f. wa \<noteq> Callable f) \<or> (\<forall>f. la \<noteq> Callable f)
        \<longrightarrow> Assorter_init cid PyNone wa la ub = Inl AssertionError)"
proof -
  have fails: "Assorter_init cid PyNone wa la ub = Inl AssertionError"
    if "(\<forall>f. wa \<noteq> Callable f) \<or> (\<forall>f. la \<noteq> Callable f)"
    using that by (cases wa; cases la) (simp_all add: Assorter_init_def)
  have range: "0 \<le> (w b - l b + 1) / 2 \<and> (w b - l b + 1) / 2 \<le> 1
      \<and> (1 \<le> ub \<longrightarrow> (w b - l b + 1) / 2 \<le> ub)"
    if "w b \<in> {0, 1} \<and> l b \<in> {0, 1}" for b
    using that by auto
  show ?thesis using fails range by (simp add: Assorter_init_def)
qed

theorem Assorter_init_winner_loser_witness:
  "Assorter_init ''c1'' PyNone (Callable ex_winner) (Callable ex_loser) 1 = Inr ex_assorter
   \<and> assort ex_assorter vote_A = 1 \<and> assort ex_assorter vote_B = 0
   \<and> assort ex_assorter other_card = 1 / 2
   \<and> Assorter_init ''c1'' PyNone PyNone (Callable ex_loser) 1 = Inl AssertionError
   \<and> Assorter_init ''c1'' PyNone (Callable ex_winner) NotCallable 1 = Inl AssertionError"
  using Assorter_init_winner_loser [of "''c1''" ex_winner ex_loser 1 PyNone "Callable ex_loser"]
    Assorter_init_winner_loser [of "''c1''" ex_winner ex_loser 1 "Callable ex_winner" NotCallable]
  by (simp add: Assorter_init_def ex_assorter_def ex_winner_def ex_loser_def vote_for_def
      vote_A_def vote_B_def other_card_def)

text \<open>
  The claim as stated fails for a bound below 1, which the constructor stores without a
  check: under \<^verbatim>\<open>upper_bound=1/2\<close> the winner and loser indicators of the example give
  a vote for \<open>A\<close> the score 1.
\<close>

theorem Assorter_init_bound_counterexample:
  "Assorter_init ''c1'' PyNone (Callable ex_winner) (Callable ex_loser) (1 / 2)
     = Inr half_assorter
   \<and> ex_winner vote_A = 1 \<and> ex_loser vote_A = 0
   \<and> assort half_assorter vote_A = 1 \<and> upper_bound half_assorter = 1 / 2
   \<and> \<not> assort half_assorter vote_A \<le> upper_bound half_assorter"
  by (simp add: Assorter_init_def half_assorter_def ex_assorter_def ex_winner_def
      ex_loser_def vote_for_def vote_A_def)

subsection \<open>P-value propagation\<close>

lemma polling_not_comparison: "POLLING \<noteq> BALLOT_COMPARISON"
  by (simp add: POLLING_def BALLOT_COMPARISON_def)

lemma p_value_data_polling:
  "audit_type cont = POLLING \<Longrightarrow>
   p_value_data cont c asrt mvrs cvrs = Inr (map (\<lambda>m. Finite (Assertion_assort asrt m)) mvrs)"
  by (simp add: p_value_data_def polling_not_comparison)

lemma proved_store_p_value:
  "proved (store_p_value cont asrt d)
     = (p_value (store_p_value cont asrt d) \<le> risk_limit cont \<or> proved asrt)"
  by (simp add: store_p_value_def split: prod.splits)

lemma p_value_store_p_value:
  "p_value (store_p_value cont asrt d) = fst (test_method (test asrt) d)"
  by (simp add: store_p_value_def split: prod.splits)

lemma assertions_p_values_kept:
  "assertions_p_values cont c mvrs cvrs asrts cmax = (asrts', pv, pf, r)
   \<Longrightarrow> list_all2 proved_kept asrts asrts'"
proof (induction asrts arbitrary: cmax asrts' pv pf r)
  case Nil
  then show ?case by simp
next
  case (Cons ax asrts)
  obtain a x where ax: "ax = (a, x)" by (cases ax)
  show ?case
  proof (cases "p_value_data cont c x mvrs cvrs")
    case (Inl e)
    with Cons.prems ax have "asrts' = ax # asrts" by simp
    moreover have "list_all2 proved_kept (ax # asrts) (ax # asrts)"
      by (simp add: proved_kept_def list_all2_same)
    ultimately show ?thesis by simp
  next
    case (Inr d)
    obtain rest' pv' pf' r' where rec:
      "assertions_p_values cont c mvrs cvrs asrts (max cmax (p_value (store_p_value cont x d)))
        = (rest', pv', pf', r')"
      by (metis prod_cases4)
    with Cons.prems ax Inr have eq: "asrts' = (a, store_p_value cont x d) # rest'" by simp
    have tl: "list_all2 proved_kept asrts rest'" using Cons.IH [OF rec] .
    have hd: "proved_kept (a, x) (a, store_p_value cont x d)"
      by (simp add: proved_kept_def proved_store_p_value)
    show ?thesis using eq ax hd tl by simp
  qed
qed

lemma assertions_p_values_returns:
  "assertions_p_values cont c mvrs cvrs asrts cmax = (asrts', pv, pf, Inr m)
   \<Longrightarrow> list_all2 (proved_set cont c mvrs cvrs) asrts asrts'
       \<and> (\<forall>t. m \<le> t \<longleftrightarrow> cmax \<le> t \<and> list_all (\<lambda>ay. p_value (snd ay) \<le> t) asrts')"
proof (induction asrts arbitrary: cmax asrts' pv pf)
  case Nil
  then show ?case by auto
next
  case (Cons ax asrts)
  obtain a x where ax: "ax = (a, x)" by (cases ax)
  show ?case
  proof (cases "p_value_data cont c x mvrs cvrs")
    case (Inl e)
    with Cons.prems ax show ?thesis by simp
  next
    case (Inr d)
    obtain rest' pv' pf' r' where rec:
      "assertions_p_values cont c mvrs cvrs asrts (max cmax (p_value (store_p_value cont x d)))
        = (rest', pv', pf', r')"
      by (metis prod_cases4)
    with Cons.prems ax Inr have eq: "asrts' = (a, store_p_value cont x d) # rest'"
      and r': "r' = Inr m" by simp_all
    note IH = Cons.IH [OF rec [unfolded r']]
    have hd: "proved_set cont c mvrs cvrs (a, x) (a, store_p_value cont x d)"
      using Inr by (simp add: proved_set_def proved_store_p_value p_value_store_p_value)
    have "list_all2 (proved_set cont c mvrs cvrs) (ax # asrts) asrts'"
      using eq ax hd IH by simp
    moreover have "m \<le> t \<longleftrightarrow> cmax \<le> t \<and> list_all (\<lambda>ay. p_value (snd ay) \<le> t) asrts'" for t
      using IH eq by auto
    ultimately show ?thesis by blast
  qed
qed

lemma contest_p_values_facts:
  assumes "contest_p_values c cont mvrs cvrs = (cont', r)"
  shows "list_all2 proved_kept (assertions_of cont) (assertions_of cont')"
    and "risk_limit cont' = risk_limit cont"
    and "r = Inr m \<Longrightarrow> list_all2 (proved_set cont c mvrs cvrs) (assertions_of cont) (assertions_of cont')"
    and "r = Inr m \<Longrightarrow> max_p_rolled_up (c, cont')"
proof -
  show "risk_limit cont' = risk_limit cont"
    using assms by (auto simp: contest_p_values_def split: option.splits prod.splits sum.splits)
  show "list_all2 proved_kept (assertions_of cont) (assertions_of cont')"
  proof (cases "assertions cont")
    case None
    with assms show ?thesis by (auto simp: contest_p_values_def assertions_of_def)
  next
    case (Some asrts)
    obtain asrts' pv pf r' where rec:
      "assertions_p_values cont c mvrs cvrs asrts 0 = (asrts', pv, pf, r')"
      by (metis prod_cases4)
    have "assertions_of cont' = asrts'"
      using assms Some rec by (auto simp: contest_p_values_def assertions_of_def split: sum.splits)
    then show ?thesis
      using assertions_p_values_kept [OF rec] Some by (simp add: assertions_of_def)
  qed
  {
    assume ok: "r = Inr m"
    have "\<exists>asrts. assertions cont = Some asrts"
      using assms ok by (cases "assertions cont") (auto simp: contest_p_values_def)
    then obtain asrts where Some: "assertions cont = Some asrts" ..
    obtain asrts' pv pf r' where rec:
      "assertions_p_values cont c mvrs cvrs asrts 0 = (asrts', pv, pf, r')"
      by (metis prod_cases4)
    have r': "r' = Inr m" and as': "assertions_of cont' = asrts'" and mp: "max_p cont' = Some m"
      using assms Some rec ok
      by (auto simp: contest_p_values_def assertions_of_def split: sum.splits)
    note facts = assertions_p_values_returns [OF rec [unfolded r']]
    show "list_all2 (proved_set cont c mvrs cvrs) (assertions_of cont) (assertions_of cont')"
      using facts Some as' by (simp add: assertions_of_def)
    show "max_p_rolled_up (c, cont')"
      using facts as' mp by (simp add: max_p_rolled_up_def)
  }
qed

lemma contests_p_values_kept:
  "contests_p_values mvrs cvrs contests p_max = (contests', r)
   \<Longrightarrow> list_all2 contest_proved_kept contests contests'"
proof (induction contests arbitrary: p_max contests' r)
  case Nil
  then show ?case by simp
next
  case (Cons cc contests)
  obtain c cont where cc: "cc = (c, cont)" by (cases cc)
  obtain cont' r1 where one: "contest_p_values c cont mvrs cvrs = (cont', r1)"
    by (cases "contest_p_values c cont mvrs cvrs")
  have hd: "contest_proved_kept (c, cont) (c, cont')"
    using contest_p_values_facts(1) [OF one] by (simp add: contest_proved_kept_def)
  have same: "list_all2 contest_proved_kept contests contests"
    by (simp add: list_all2_same contest_proved_kept_def proved_kept_def)
  show ?case
  proof (cases r1)
    case (Inl e)
    with Cons.prems cc one have "contests' = (c, cont') # contests" by simp
    then show ?thesis using cc hd same by simp
  next
    case (Inr m)
    obtain rest' r2 where rec: "contests_p_values mvrs cvrs contests (max p_max m) = (rest', r2)"
      by (cases "contests_p_values mvrs cvrs contests (max p_max m)")
    with Cons.prems cc one Inr have "contests' = (c, cont') # rest'" by simp
    then show ?thesis using cc hd Cons.IH [OF rec] by simp
  qed
qed

lemma contests_p_values_returns:
  "contests_p_values mvrs cvrs contests p_max = (contests', Inr m)
   \<Longrightarrow> list_all2 (\<lambda>old new. contest_proved_set mvrs cvrs old new \<and> max_p_rolled_up new
          \<and> risk_limit (snd new) = risk_limit (snd old)) contests contests'"
proof (induction contests arbitrary: p_max contests')
  case Nil
  then show ?case by simp
next
  case (Cons cc contests)
  obtain c cont where cc: "cc = (c, cont)" by (cases cc)
  obtain cont' r1 where one: "contest_p_values c cont mvrs cvrs = (cont', r1)"
    by (cases "contest_p_values c cont mvrs cvrs")
  show ?case
  proof (cases r1)
    case (Inl e)
    with Cons.prems cc one show ?thesis by simp
  next
    case (Inr m1)
    obtain rest' r2 where rec: "contests_p_values mvrs cvrs contests (max p_max m1) = (rest', r2)"
      by (cases "contests_p_values mvrs cvrs contests (max p_max m1)")
    with Cons.prems cc one Inr have eq: "contests' = (c, cont') # rest'" and r2: "r2 = Inr m"
      by simp_all
    have hd: "contest_proved_set mvrs cvrs (c, cont) (c, cont')" "max_p_rolled_up (c, cont')"
      "risk_limit cont' = risk_limit cont"
      using contest_p_values_facts(3,4) [OF one Inr] contest_p_values_facts(2) [OF one]
      by (simp_all add: contest_proved_set_def)
    show ?thesis using eq cc hd Cons.IH [OF rec [unfolded r2]] by simp
  qed
qed

lemmas ex_defs = polling_contest_def threshold_test_def ex_assertion_def ex_assorter_def
  ex_info_def ex_winner_def ex_loser_def vote_for_def vote_A_def vote_B_def
  phantom_card_def other_card_def const_test_def

lemmas p_defs = set_all_p_values_def contest_p_values_def p_value_data_def store_p_value_def
  Assertion_assort_def assertions_of_def POLLING_def BALLOT_COMPARISON_def PLURALITY_def



lemma assertions_p_values_polling:
  "audit_type cont = POLLING \<Longrightarrow>
   \<exists>pv pf m. assertions_p_values cont c mvrs cvrs asrts cmax
                = (map (polled cont mvrs) asrts, pv, pf, Inr m)"
proof (induction asrts arbitrary: cmax)
  case Nil
  then show ?case by simp
next
  case (Cons ax asrts)
  obtain a x where ax: "ax = (a, x)" by (cases ax)
  let ?d = "map (\<lambda>m. Finite (Assertion_assort x m)) mvrs"
  from Cons.IH [OF Cons.prems, of "max cmax (p_value (store_p_value cont x ?d))"]
  obtain pv pf m where
    "assertions_p_values cont c mvrs cvrs asrts (max cmax (p_value (store_p_value cont x ?d)))
      = (map (polled cont mvrs) asrts, pv, pf, Inr m)"
    by blast
  then show ?case
    using ax Cons.prems by (simp add: p_value_data_polling polled_def)
qed

lemma store_p_value_use_style:
  "store_p_value (cont\<lparr>use_style := us\<rparr>) asrt d = store_p_value cont asrt d"
  by (simp add: store_p_value_def)

lemma comparison_pairs_filter:
  "comparison_pairs asrt c True ps
    = comparison_pairs asrt c True (filter (\<lambda>p. has_contest (snd p) c) ps)"
  by (induction ps) (auto split: sum.splits)




text \<open>
  C5. Whatever the samples and however the call ends, \<^verbatim>\<open>set_all_p_values\<close> leaves
  every assertion that was proved proved; and when it returns, every assertion's
  \<^verbatim>\<open>proved\<close> is true exactly when the p-value the call computed for it is at most
  the contest's risk limit or \<^verbatim>\<open>proved\<close> was true before.
\<close>

theorem proved_is_monotone:
  "set_all_p_values contests mvrs cvrs = (contests', r)
   \<Longrightarrow> list_all2 contest_proved_kept contests contests'
       \<and> (\<forall>p_max. r = Inr p_max \<longrightarrow> list_all2 (contest_proved_set mvrs cvrs) contests contests')"
proof -
  assume run: "set_all_p_values contests mvrs cvrs = (contests', r)"
  have same: "list_all2 contest_proved_kept contests contests"
    by (simp add: list_all2_same contest_proved_kept_def proved_kept_def)
  show ?thesis
  proof (cases "\<exists>cs. cvrs = Some cs \<and> length mvrs \<noteq> length cs")
    case True
    with run have "contests' = contests" "r = Inl AssertionError"
      by (auto simp: set_all_p_values_def)
    then show ?thesis using same by simp
  next
    case False
    with run have loop: "contests_p_values mvrs cvrs contests 0 = (contests', r)"
      by (auto simp: set_all_p_values_def split: option.splits if_splits)
    have "list_all2 (contest_proved_set mvrs cvrs) contests contests'" if "r = Inr p_max" for p_max
      using contests_p_values_returns [OF loop [unfolded that]]
      by (rule list_all2_mono) simp
    then show ?thesis using contests_p_values_kept [OF loop] by blast
  qed
qed

theorem proved_is_monotone_witness:
  "list_all2 contest_proved_kept after_first_call after_second_call
   \<and> list_all2 (contest_proved_set [vote_A, vote_A, vote_B] None) after_first_call after_second_call
   \<and> all_proved (snd (hd after_first_call))
   \<and> all_proved (snd (hd after_second_call))
   \<and> map (\<lambda>ay. p_value (snd ay)) (assertions_of (snd (hd after_second_call))) = [1]"
proof -
  have r: "snd (set_all_p_values after_first_call [vote_A, vote_A, vote_B] None) = Inr 1"
    by (simp add: after_first_call_def ex_defs p_defs)
  then have run: "set_all_p_values after_first_call [vote_A, vote_A, vote_B] None = (after_second_call, Inr 1)"
    by (simp add: after_second_call_def prod_eq_iff)
  have "all_proved (snd (hd after_first_call)) \<and> all_proved (snd (hd after_second_call))
      \<and> map (\<lambda>ay. p_value (snd ay)) (assertions_of (snd (hd after_second_call))) = [1]"
    by (simp add: after_second_call_def after_first_call_def all_proved_def ex_defs p_defs)
  then show ?thesis using proved_is_monotone [OF run] by simp
qed

lemma p_history_store_p_value:
  "p_history (store_p_value cont asrt d) = snd (test_method (test asrt) d)"
  by (simp add: store_p_value_def split: prod.splits)

lemma polling_tested_polled: "polling_tested mvrs ay (polled cont mvrs ay)"
  by (simp add: polling_tested_def polled_def p_value_store_p_value p_history_store_p_value)

lemma contest_p_values_polling:
  assumes "audit_type cont = POLLING"
  shows "assertions_of (fst (contest_p_values c cont mvrs cvrs))
          = map (polled cont mvrs) (assertions_of cont)"
proof (cases "assertions cont")
  case None
  then show ?thesis by (simp add: contest_p_values_def assertions_of_def)
next
  case (Some asrts)
  from assertions_p_values_polling [OF assms, of c mvrs cvrs asrts 0]
  obtain pv pf m where
    "assertions_p_values cont c mvrs cvrs asrts 0 = (map (polled cont mvrs) asrts, pv, pf, Inr m)"
    by blast
  then show ?thesis using Some by (simp add: contest_p_values_def assertions_of_def)
qed

lemma overstatement_assorter_call_raises:
  "overstatement_assorter_call asrt m cv us = Inl TypeError"
  by (simp add: overstatement_assorter_call_def bind_arguments_def
      overstatement_assorter_params_def)

lemma comparison_pairs_returns:
  "comparison_pairs asrt c us ps = Inr d
   \<Longrightarrow> d = [] \<and> list_all (\<lambda>p. us \<and> \<not> has_contest (snd p) c) ps"
proof (induction ps)
  case Nil
  then show ?case by simp
next
  case (Cons p ps)
  obtain m cv where p: "p = (m, cv)" by (cases p)
  from Cons.prems p have drop: "us \<and> \<not> has_contest cv c"
    by (auto simp: overstatement_assorter_call_raises split: if_splits)
  with Cons.prems p have "comparison_pairs asrt c us ps = Inr d" by auto
  with Cons.IH drop p show ?case by simp
qed

lemma comparison_data_returns:
  assumes "comparison_data asrt c us mvrs cvrs = Inr d"
    and "\<And>cs. cvrs = Some cs \<Longrightarrow> length mvrs = length cs"
  shows "d = [] \<and> comparison_filtered c us mvrs cvrs"
proof (cases cvrs)
  case None
  with assms(1) show ?thesis
    by (auto simp: comparison_data_def comparison_filtered_def split: if_splits)
next
  case (Some cs)
  with assms(1) have pairs: "comparison_pairs asrt c us (zip mvrs cs) = Inr d"
    by (simp add: comparison_data_def)
  note ret = comparison_pairs_returns [OF pairs]
  have len: "length mvrs = length cs" using assms(2) Some by simp
  show ?thesis
  proof (cases "mvrs = []")
    case True
    with ret show ?thesis by (simp add: comparison_filtered_def)
  next
    case False
    with len have ne: "zip mvrs cs \<noteq> []" by (cases mvrs; cases cs) auto
    with ret have us: us by (cases "zip mvrs cs") auto
    from ret have "list_all (\<lambda>cv. \<not> has_contest cv c) (map snd (zip mvrs cs))"
      by (simp add: list_all_iff)
    then have "list_all (\<lambda>cv. \<not> has_contest cv c) cs" using len by simp
    with us ret Some show ?thesis by (simp add: comparison_filtered_def)
  qed
qed

lemma contest_p_values_fed:
  assumes run: "contest_p_values c cont mvrs cvrs = (cont', Inr m)"
    and len: "\<And>cs. cvrs = Some cs \<Longrightarrow> length mvrs = length cs"
  shows "fed_to_test mvrs cvrs (c, cont) (c, cont')"
proof -
  have pol: "list_all2 (polling_tested mvrs) (assertions_of cont) (assertions_of cont')"
    if "audit_type cont = POLLING"
  proof -
    have "assertions_of cont' = map (polled cont mvrs) (assertions_of cont)"
      using contest_p_values_polling [OF that, of c mvrs cvrs] run by simp
    then show ?thesis
      by (simp add: list_all2_map2 list_all2_same polling_tested_polled)
  qed
  have cmp: "comparison_filtered c (use_style cont) mvrs cvrs"
    if "audit_type cont = BALLOT_COMPARISON" "assertions_of cont \<noteq> []"
  proof -
    note set = contest_p_values_facts(3) [OF run refl]
    from that(2) obtain ax rest where "assertions_of cont = ax # rest"
      by (cases "assertions_of cont") auto
    with set obtain d where "p_value_data cont c (snd ax) mvrs cvrs = Inr d"
      by (auto simp: list_all2_Cons1 proved_set_def)
    with that(1) obtain d' where
      "comparison_data (snd ax) c (use_style cont) mvrs cvrs = Inr d'"
      by (auto simp: p_value_data_def split: sum.splits)
    from comparison_data_returns [OF this len] show ?thesis by simp
  qed
  show ?thesis using pol cmp by (simp add: fed_to_test_def)
qed

lemma contests_p_values_fed:
  assumes len: "\<And>cs. cvrs = Some cs \<Longrightarrow> length mvrs = length cs"
  shows "contests_p_values mvrs cvrs contests p_max = (contests', Inr m)
   \<Longrightarrow> list_all2 (fed_to_test mvrs cvrs) contests contests'"
proof (induction contests arbitrary: p_max contests')
  case Nil
  then show ?case by simp
next
  case (Cons cc contests)
  obtain c cont where cc: "cc = (c, cont)" by (cases cc)
  obtain cont' r1 where one: "contest_p_values c cont mvrs cvrs = (cont', r1)"
    by (cases "contest_p_values c cont mvrs cvrs")
  show ?case
  proof (cases r1)
    case (Inl e)
    with Cons.prems cc one show ?thesis by simp
  next
    case (Inr m1)
    obtain rest' r2 where rec: "contests_p_values mvrs cvrs contests (max p_max m1) = (rest', r2)"
      by (cases "contests_p_values mvrs cvrs contests (max p_max m1)")
    with Cons.prems cc one Inr have eq: "contests' = (c, cont') # rest'" and r2: "r2 = Inr m"
      by simp_all
    have hd: "fed_to_test mvrs cvrs (c, cont) (c, cont')"
      using contest_p_values_fed [OF one [unfolded Inr] len] .
    show ?thesis using eq cc hd Cons.IH [OF rec [unfolded r2]] by simp
  qed
qed

text \<open>
  C10. In a call of \<^verbatim>\<open>set_all_p_values\<close> that returns, for every contest whose
  audit type is \<^verbatim>\<open>POLLING\<close>, whatever its \<^verbatim>\<open>use_style\<close> flag, the p-value and the
  p-history of every assertion are those the test gives on the assort values of all the
  MVRs of the sample, those that lack the contest included. The membership filter acts
  in the comparison branch only: a comparison contest with an assertion lets the call
  return only when the filter drops every pair of the samples.
\<close>

theorem set_all_p_values_feeds_test:
  "set_all_p_values contests mvrs cvrs = (contests', Inr p_max)
   \<Longrightarrow> list_all2 (fed_to_test mvrs cvrs) contests contests'"
proof -
  assume run: "set_all_p_values contests mvrs cvrs = (contests', Inr p_max)"
  then have loop: "contests_p_values mvrs cvrs contests 0 = (contests', Inr p_max)"
    by (auto simp: set_all_p_values_def split: option.splits if_splits)
  have len: "length mvrs = length cs" if "cvrs = Some cs" for cs
    using run that by (auto simp: set_all_p_values_def split: if_splits)
  show ?thesis using contests_p_values_fed [OF len loop] .
qed

lemmas fed_defs = recorded_contest_def recording_test_def finite_part_def
  comparison_data_def comparison_bound_def overstatement_assorter_call_def
  bind_arguments_def overstatement_assorter_params_def has_contest_def

theorem set_all_p_values_feeds_test_witness:
  "\<not> has_contest other_card ''c1''
   \<and> snd (set_all_p_values [(''c1'', recorded_contest POLLING True)]
            [vote_A, other_card, vote_B] None) = Inr (2 / 5)
   \<and> list_all2 (fed_to_test [vote_A, other_card, vote_B] None)
        [(''c1'', recorded_contest POLLING True)]
        (fst (set_all_p_values [(''c1'', recorded_contest POLLING True)]
               [vote_A, other_card, vote_B] None))
   \<and> map (\<lambda>ay. p_history (snd ay))
        (assertions_of (snd (hd (fst (set_all_p_values [(''c1'', recorded_contest POLLING True)]
               [vote_A, other_card, vote_B] None)))))
       = [[1, 1 / 2, 0]]
   \<and> map (\<lambda>ay. p_history (snd ay))
        (assertions_of (snd (hd (fst (set_all_p_values [(''c1'', recorded_contest POLLING False)]
               [vote_A, other_card, vote_B] None)))))
       = [[1, 1 / 2, 0]]
   \<and> snd (set_all_p_values [(''c1'', recorded_contest BALLOT_COMPARISON True)]
            [vote_A] (Some [other_card])) = Inr 1
   \<and> list_all2 (fed_to_test [vote_A] (Some [other_card]))
        [(''c1'', recorded_contest BALLOT_COMPARISON True)]
        (fst (set_all_p_values [(''c1'', recorded_contest BALLOT_COMPARISON True)]
               [vote_A] (Some [other_card])))
   \<and> snd (set_all_p_values [(''c1'', recorded_contest BALLOT_COMPARISON True)]
            [vote_A] (Some [vote_A])) = Inl TypeError
   \<and> snd (set_all_p_values [(''c1'', recorded_contest BALLOT_COMPARISON False)]
            [vote_A] (Some [other_card])) = Inl TypeError"
proof -
  let ?pol = "[(''c1'', recorded_contest POLLING True)]"
  let ?cmp = "[(''c1'', recorded_contest BALLOT_COMPARISON True)]"
  have r1: "snd (set_all_p_values ?pol [vote_A, other_card, vote_B] None) = Inr (2 / 5)"
    by (simp add: fed_defs ex_defs p_defs)
  then have run1: "set_all_p_values ?pol [vote_A, other_card, vote_B] None
      = (fst (set_all_p_values ?pol [vote_A, other_card, vote_B] None), Inr (2 / 5))"
    by (simp add: prod_eq_iff)
  have r2: "snd (set_all_p_values ?cmp [vote_A] (Some [other_card])) = Inr 1"
    by (simp add: fed_defs ex_defs p_defs)
  then have run2: "set_all_p_values ?cmp [vote_A] (Some [other_card])
      = (fst (set_all_p_values ?cmp [vote_A] (Some [other_card])), Inr 1)"
    by (simp add: prod_eq_iff)
  have rest: "\<not> has_contest other_card ''c1''
    \<and> map (\<lambda>ay. p_history (snd ay))
        (assertions_of (snd (hd (fst (set_all_p_values ?pol [vote_A, other_card, vote_B] None)))))
       = [[1, 1 / 2, 0]]
    \<and> map (\<lambda>ay. p_history (snd ay))
        (assertions_of (snd (hd (fst (set_all_p_values [(''c1'', recorded_contest POLLING False)]
               [vote_A, other_card, vote_B] None)))))
       = [[1, 1 / 2, 0]]
    \<and> snd (set_all_p_values ?cmp [vote_A] (Some [vote_A])) = Inl TypeError
    \<and> snd (set_all_p_values [(''c1'', recorded_contest BALLOT_COMPARISON False)]
            [vote_A] (Some [other_card])) = Inl TypeError"
    by (simp add: fed_defs ex_defs p_defs)
  show ?thesis
    using set_all_p_values_feeds_test [OF run1] set_all_p_values_feeds_test [OF run2] r1 r2 rest
    by simp
qed

subsection \<open>Margins\<close>

lemma find_margin_cases:
  "find_margin self None us = Inl TypeError"
  "assorter_mean self cvrs us = Finite amean \<Longrightarrow> amean < 1 / 2
     \<Longrightarrow> find_margin self (Some cvrs) us = Inl NameError"
  "assorter_mean self cvrs us = Finite amean \<Longrightarrow> \<not> amean < 1 / 2
     \<Longrightarrow> find_margin self (Some cvrs) us = Inr (self\<lparr>margin := Some (Finite (2 * amean - 1))\<rparr>)"
  by (simp_all add: find_margin_def)

text \<open>
  C7. The claim: for a CVR list whose assorter mean is below 1/2, \<^verbatim>\<open>find_margin\<close>
  warns, does not fail, and stores \<open>2 * mean - 1\<close>. The code: for the three CVRs
  \<open>B, B, A\<close> the mean is 1/3 and \<^verbatim>\<open>find_margin\<close> raises \<^verbatim>\<open>NameError\<close> and stores
  nothing; for \<open>A, A, A, B, B\<close> the mean is 3/5 and it stores the margin 1/5.
\<close>

theorem find_margin_below_half_raises:
  "assorter_mean ex_assertion [vote_B, vote_B, vote_A] False = Finite (1 / 3)
   \<and> find_margin ex_assertion (Some [vote_B, vote_B, vote_A]) False = Inl NameError
   \<and> assorter_mean ex_assertion [vote_A, vote_A, vote_A, vote_B, vote_B] False = Finite (3 / 5)
   \<and> find_margin (ex_assertion\<lparr>margin := None\<rparr>) (Some [vote_A, vote_A, vote_A, vote_B, vote_B]) False
       = Inr (ex_assertion\<lparr>margin := Some (Finite (1 / 5))\<rparr>)"
  by (simp add: find_margin_def assorter_mean_def np_mean_def ex_defs)

lemma contests_margins_returns:
  "contests_margins us contests = (contests', None)
   \<Longrightarrow> list_all (\<lambda>cc. assertions (snd cc) = Some []) contests"
proof (induction contests arbitrary: contests')
  case Nil
  then show ?case by simp
next
  case (Cons cc contests)
  obtain c cont where cc: "cc = (c, cont)" by (cases cc)
  from Cons.prems cc obtain asrts where asrts: "assertions cont = Some asrts"
    by (cases "assertions cont") auto
  have empty: "asrts = []"
  proof (cases asrts)
    case Nil
    then show ?thesis .
  next
    case (Cons ax rest)
    obtain a x where "ax = (a, x)" by (cases ax)
    with Cons Cons.prems cc asrts show ?thesis
      by (simp add: find_margin_def)
  qed
  obtain rest' r where rec: "contests_margins us contests = (rest', r)"
    by (cases "contests_margins us contests")
  with Cons.prems cc asrts empty have "r = None" by simp
  with Cons.IH rec have "list_all (\<lambda>cc. assertions (snd cc) = Some []) contests" by simp
  then show ?case using cc asrts empty by simp
qed

lemma set_all_margins_returns:
  "snd (set_all_margins contests cvr_list us) = Inr v
   \<Longrightarrow> list_all (\<lambda>cc. assertions (snd cc) = Some []) contests"
  using contests_margins_returns [of us contests]
  by (auto simp: set_all_margins_def split: prod.splits option.splits)

text \<open>
  C8. The claim: two calls of \<^verbatim>\<open>set_all_margins\<close> with the same arguments store the
  same margins and return the same minimum. The code: for one plurality contest with one
  assertion and five CVRs the call raises \<^verbatim>\<open>TypeError\<close>, and the assertion's margin
  is as unset as before; by \<open>set_all_margins_returns\<close> a call returns only when no
  contest has any assertion.
\<close>

theorem set_all_margins_raises:
  "snd (set_all_margins [(''c1'', unset_contest)] [vote_A, vote_A, vote_A, vote_B, vote_B] False)
     = Inl TypeError
   \<and> map (\<lambda>ay. margin (snd ay))
       (assertions_of (snd (hd (fst (set_all_margins [(''c1'', unset_contest)]
          [vote_A, vote_A, vote_A, vote_B, vote_B] False)))))
       = [None]"
  by (simp add: set_all_margins_def unset_contest_def new_contest_def find_margin_def
      assertions_of_def)

subsection \<open>Sample sizes\<close>

text \<open>
  C6. The claim: for a positive margin and no data, \<^verbatim>\<open>sample_size\<close> builds the
  population, passes it to the test's estimator, stores the estimate and returns it. The
  code: no call returns. A polling assertion without data stops at \<^verbatim>\<open>self.u\<close>, a
  comparison assertion at \<^verbatim>\<open>self.N\<close>, a call with data at \<^verbatim>\<open>sam_size\<close>; a margin
  of 0 is the \<^verbatim>\<open>AssertionError\<close> the claim ends with.
\<close>

theorem sample_size_never_returns:
  "(\<exists>e. Assertion_sample_size self data prefix rate reps quantile seed = Inl e)
   \<and> Assertion_sample_size ex_assertion None True None None (1 / 2) 1234567890
       = Inl AttributeError
   \<and> Assertion_sample_size (ex_assertion\<lparr>contest := ex_info\<lparr>audit_type := BALLOT_COMPARISON\<rparr>\<rparr>)
         None True (Some (1 / 1000)) None (1 / 2) 1234567890
       = Inl AttributeError
   \<and> Assertion_sample_size ex_assertion (Some [Finite 1, Finite 1]) True None None (1 / 2) 1234567890
       = Inl NameError
   \<and> Assertion_sample_size (ex_assertion\<lparr>margin := Some (Finite 0)\<rparr>)
         None True None None (1 / 2) 1234567890
       = Inl AssertionError"
proof -
  have "\<exists>e. Assertion_sample_size self data prefix rate reps quantile seed = Inl e"
    by (auto simp: Assertion_sample_size_def Let_def
        split: option.splits pyfloat.splits sum.splits)
  moreover have "Assertion_sample_size ex_assertion None True None None (1 / 2) 1234567890
       = Inl AttributeError"
    by (simp add: Assertion_sample_size_def ex_defs POLLING_def)
  moreover have "Assertion_sample_size (ex_assertion\<lparr>contest := ex_info\<lparr>audit_type := BALLOT_COMPARISON\<rparr>\<rparr>)
         None True (Some (1 / 1000)) None (1 / 2) 1234567890
       = Inl AttributeError"
    by (simp add: Assertion_sample_size_def make_overstatement_def overstatement_quotient_def
        ex_defs POLLING_def BALLOT_COMPARISON_def)
  moreover have "Assertion_sample_size ex_assertion (Some [Finite 1, Finite 1]) True None None (1 / 2) 1234567890
       = Inl NameError"
    by (simp add: Assertion_sample_size_def ex_defs)
  moreover have "Assertion_sample_size (ex_assertion\<lparr>margin := Some (Finite 0)\<rparr>)
         None True None None (1 / 2) 1234567890
       = Inl AssertionError"
    by (simp add: Assertion_sample_size_def ex_defs)
  ultimately show ?thesis by blast
qed

subsection \<open>Construction of the assertions\<close>

text \<open>
  C9. The claim: \<^verbatim>\<open>make_all_assertions\<close> gives each contest to the factory method of
  its social choice function and stores the assertions it returns. The code, whatever
  the bodies of the factory methods do: a plurality contest and a supermajority contest
  end in \<^verbatim>\<open>TypeError\<close>, since the calls pass keywords (\<^verbatim>\<open>test\<close> and \<^verbatim>\<open>estim\<close>;
  \<^verbatim>\<open>winners\<close> and \<^verbatim>\<open>share_to_win\<close>) that the methods do not take; an IRV contest
  without an attached \<^verbatim>\<open>assertion_json\<close> ends in \<^verbatim>\<open>AttributeError\<close>; no assertion
  is stored. Any other social choice function ends in \<^verbatim>\<open>NotImplementedError\<close>, as
  claimed.
\<close>

theorem make_all_assertions_raises:
  "make_all_assertions fs [(''c1'', new_contest PLURALITY)]
     = ([(''c1'', new_contest PLURALITY)], Inl TypeError)
   \<and> make_all_assertions fs [(''c1'', new_contest SUPERMAJORITY)]
     = ([(''c1'', new_contest SUPERMAJORITY)], Inl TypeError)
   \<and> make_all_assertions fs [(''c1'', new_contest IRV)]
     = ([(''c1'', new_contest IRV)], Inl AttributeError)
   \<and> make_all_assertions fs [(''c1'', new_contest ''BORDA'')]
     = ([(''c1'', new_contest ''BORDA'')], Inl NotImplementedError)"
  by (simp add: make_all_assertions_def contest_assertions_def losers_of_def new_contest_def
      bind_arguments_def make_plurality_assertions_params_def
      make_supermajority_assertion_params_def PLURALITY_def SUPERMAJORITY_def IRV_def)

end
